theory Spec2Isabelle
  imports Main
begin

section \<open>Values and exceptions\<close>

text \<open>
  The values that \<^verbatim>\<open>resp.json()\<close> hands to the client. \<^verbatim>\<open>JNull\<close> is Python's
  \<^verbatim>\<open>None\<close>; an object is the parsed dict, read with \<^verbatim>\<open>map_of\<close>. JSON numbers with a
  fraction or an exponent become Python floats; floating-point arithmetic is not
  embedded, so the number constructor carries integers only.
\<close>

datatype json =
    JNull
  | JBool bool
  | JInt int
  | JStr string
  | JArr "json list"
  | JObj "(string \<times> json) list"

text \<open>
  The exceptions of the module (\<^verbatim>\<open>BeyondTrustError\<close> and its two subclasses), those of
  the transport (\<^verbatim>\<open>requests.RequestException\<close>, and its subclass \<^verbatim>\<open>HTTPError\<close> raised by
  \<^verbatim>\<open>raise_for_status\<close>) and the built-in ones the code can run into. The payload of a
  module exception is what its message is formatted from.
\<close>

datatype exn =
    RequestException string
  | HTTPError nat
  | ValueError string
  | KeyError string
  | TypeError
  | AttributeError
  | OverflowError
  | BeyondTrustError exn
  | AuthError auth_msg
  | ResourceNotFoundError string
and auth_msg =
    Failed_to_acquire_token nat exn
  | SessionId_not_returned

fun is_RequestException :: "exn \<Rightarrow> bool" where
  "is_RequestException (RequestException _) = True"
| "is_RequestException (HTTPError _) = True"
| "is_RequestException _ = False"

fun is_AuthError :: "exn \<Rightarrow> bool" where
  "is_AuthError (AuthError _) = True"
| "is_AuthError _ = False"

fun is_BeyondTrustError :: "exn \<Rightarrow> bool" where
  "is_BeyondTrustError (BeyondTrustError _) = True"
| "is_BeyondTrustError (AuthError _) = True"
| "is_BeyondTrustError (ResourceNotFoundError _) = True"
| "is_BeyondTrustError _ = False"

text \<open>Python's truth value of a JSON value (\<^verbatim>\<open>not x\<close> is its negation).\<close>

fun truthy :: "json \<Rightarrow> bool" where
  "truthy JNull = False"
| "truthy (JBool b) = b"
| "truthy (JInt n) = (n \<noteq> 0)"
| "truthy (JStr s) = (s \<noteq> [])"
| "truthy (JArr xs) = (xs \<noteq> [])"
| "truthy (JObj kvs) = (kvs \<noteq> [])"

text \<open>\<^verbatim>\<open>d[k]\<close> with a string key: only a dict can answer, and only for a key it has.\<close>

fun subscript :: "json \<Rightarrow> string \<Rightarrow> exn + json" where
  "subscript (JObj kvs) k = (case map_of kvs k of None \<Rightarrow> Inl (KeyError k) | Some v \<Rightarrow> Inr v)"
| "subscript _ k = Inl TypeError"

text \<open>\<^verbatim>\<open>d.get(k, default)\<close>: the other JSON values have no \<^verbatim>\<open>get\<close> attribute.\<close>

fun py_get :: "json \<Rightarrow> string \<Rightarrow> json \<Rightarrow> exn + json" where
  "py_get (JObj kvs) k dflt = (case map_of kvs k of None \<Rightarrow> Inr dflt | Some v \<Rightarrow> Inr v)"
| "py_get _ k dflt = Inl AttributeError"

text \<open>What a \<^verbatim>\<open>for\<close> over a JSON value visits: list elements, dict keys, the
  characters of a string; the rest is not iterable.\<close>

fun py_iter :: "json \<Rightarrow> exn + json list" where
  "py_iter (JArr xs) = Inr xs"
| "py_iter (JObj kvs) = Inr (map (\<lambda>kv. JStr (fst kv)) kvs)"
| "py_iter (JStr s) = Inr (map (\<lambda>ch. JStr [ch]) s)"
| "py_iter _ = Inl TypeError"

text \<open>The key under which a dict stores a value: lists and dicts are unhashable, and
  \<^verbatim>\<open>True\<close>, \<^verbatim>\<open>False\<close> are the same keys as \<^verbatim>\<open>1\<close>, \<^verbatim>\<open>0\<close>.\<close>

fun hash_key :: "json \<Rightarrow> exn + json" where
  "hash_key (JArr xs) = Inl TypeError"
| "hash_key (JObj kvs) = Inl TypeError"
| "hash_key (JBool b) = Inr (JInt (if b then 1 else 0))"
| "hash_key v = Inr v"

section \<open>Time\<close>

text \<open>
  A \<^verbatim>\<open>datetime\<close> is its number of microseconds since 0001-01-01T00:00:00, a
  \<^verbatim>\<open>timedelta\<close> a number of microseconds. Both constructors refuse values out of
  their range with \<^verbatim>\<open>OverflowError\<close>.
\<close>

type_synonym datetime = int
type_synonym timedelta = int

definition datetime_max :: datetime where
  "datetime_max = 3652059 * 86400 * 1000000 - 1"

definition timedelta_seconds :: "int \<Rightarrow> exn + timedelta" where
  "timedelta_seconds n =
     (if - 999999999 \<le> n div 86400 \<and> n div 86400 \<le> 999999999
      then Inr (n * 1000000) else Inl OverflowError)"

definition datetime_add :: "datetime \<Rightarrow> timedelta \<Rightarrow> exn + datetime" where
  "datetime_add t d =
     (if 0 \<le> t + d \<and> t + d \<le> datetime_max then Inr (t + d) else Inl OverflowError)"

text \<open>\<^verbatim>\<open>expires_in - 30\<close>: defined on Python's integers, of which \<^verbatim>\<open>bool\<close> is one.\<close>

fun minus_30 :: "json \<Rightarrow> exn + int" where
  "minus_30 (JInt n) = Inr (n - 30)"
| "minus_30 (JBool b) = Inr ((if b then 1 else 0) - 30)"
| "minus_30 _ = Inl TypeError"

text \<open>\<^verbatim>\<open>datetime.now(timezone.utc) + timedelta(seconds=expires_in - 30)\<close>\<close>

definition expiry_from :: "datetime \<Rightarrow> json \<Rightarrow> exn + datetime" where
  "expiry_from t expires_in =
     (case minus_30 expires_in of
        Inl e \<Rightarrow> Inl e
      | Inr n \<Rightarrow> (case timedelta_seconds n of
                   Inl e \<Rightarrow> Inl e
                 | Inr d \<Rightarrow> datetime_add t d))"

section \<open>The transport and the world around the client\<close>

datatype http_method = POST | GET

record request =
  meth :: http_method
  url :: string
  headers :: "(string \<times> string) list"
  data :: "(string \<times> string) list"
  timeout :: nat

text \<open>A response: its status, what \<^verbatim>\<open>resp.json()\<close> does (raise, or give a value) and
  the cookies the server set.\<close>

record response =
  status_code :: nat
  body :: "exn + json"
  cookies :: "(string \<times> string) list"

datatype outcome = Raises exn | Responds response

text \<open>
  The world: the clock (read by \<^verbatim>\<open>datetime.now\<close>), the requests sent so far, the
  delays slept so far (in seconds), and the network, which answers the k-th request
  with an outcome after some microseconds.
\<close>

record world =
  now :: datetime
  sent :: "request list"
  slept :: "nat list"
  net :: "nat \<Rightarrow> request \<Rightarrow> nat \<times> outcome"

definition http :: "request \<Rightarrow> world \<Rightarrow> outcome \<times> world" where
  "http rq w =
     (case net w (length (sent w)) rq of
        (d, out) \<Rightarrow> (out, w\<lparr>now := now w + int d, sent := sent w @ [rq]\<rparr>))"

definition sleep :: "nat \<Rightarrow> world \<Rightarrow> world" where
  "sleep secs w = w\<lparr>now := now w + 1000000 * int secs, slept := slept w @ [secs]\<rparr>"

text \<open>\<^verbatim>\<open>resp.raise_for_status()\<close> of the requests library: 4xx and 5xx raise.\<close>

definition raise_for_status :: "response \<Rightarrow> exn option" where
  "raise_for_status resp =
     (if 400 \<le> status_code resp \<and> status_code resp < 600
      then Some (HTTPError (status_code resp)) else None)"

section \<open>The client\<close>

record client_config =
  token_url :: string
  sign_in_url :: string
  client_id :: string
  client_secret :: string
  base_url :: string

text \<open>The instance: its config and the token cache (\<^verbatim>\<open>_access_token\<close> is whatever
  the token endpoint sent, \<^verbatim>\<open>JNull\<close> while unset).\<close>

record client =
  config :: client_config
  access_token :: json
  token_expiry :: "datetime option"

definition retries :: nat where
  "retries = 3"

definition backoff :: nat where
  "backoff = 2"

definition new_client :: "client_config \<Rightarrow> client" where
  "new_client cfg = \<lparr>config = cfg, access_token = JNull, token_expiry = None\<rparr>"

definition token_request :: "client_config \<Rightarrow> request" where
  "token_request cfg =
     \<lparr>meth = POST, url = token_url cfg, headers = [],
      data = [(''client_id'', client_id cfg), (''client_secret'', client_secret cfg),
              (''grant_type'', ''client_credentials'')],
      timeout = 10\<rparr>"

text \<open>The body of the \<^verbatim>\<open>try\<close> in \<^verbatim>\<open>_refresh_token\<close>: one attempt. The token is
  stored before \<^verbatim>\<open>expires_in\<close> is read and the expiry computed.\<close>

definition try_refresh :: "client \<Rightarrow> world \<Rightarrow> (exn + json) \<times> client \<times> world" where
  "try_refresh c w =
     (case http (token_request (config c)) w of
        (Raises e, w1) \<Rightarrow> (Inl e, c, w1)
      | (Responds resp, w1) \<Rightarrow>
          (case raise_for_status resp of
             Some e \<Rightarrow> (Inl e, c, w1)
           | None \<Rightarrow>
               (case body resp of
                  Inl e \<Rightarrow> (Inl e, c, w1)
                | Inr dat \<Rightarrow>
                    (case subscript dat ''access_token'' of
                       Inl e \<Rightarrow> (Inl e, c, w1)
                     | Inr tok \<Rightarrow>
                         (case py_get dat ''expires_in'' (JInt 3600) of
                            Inl e \<Rightarrow> (Inl e, c\<lparr>access_token := tok\<rparr>, w1)
                          | Inr expires_in \<Rightarrow>
                              (case expiry_from (now w1) expires_in of
                                 Inl e \<Rightarrow> (Inl e, c\<lparr>access_token := tok\<rparr>, w1)
                               | Inr t \<Rightarrow>
                                   (Inr tok,
                                    c\<lparr>access_token := tok, token_expiry := Some t\<rparr>,
                                    w1)))))))"

text \<open>The \<^verbatim>\<open>for attempt in range(self.retries)\<close> loop. A loop that ends without
  returning makes the function return \<^verbatim>\<open>None\<close>.\<close>

fun refresh_loop :: "nat list \<Rightarrow> client \<Rightarrow> world \<Rightarrow> (exn + json) \<times> client \<times> world" where
  "refresh_loop [] c w = (Inr JNull, c, w)"
| "refresh_loop (attempt # rest) c w =
     (case try_refresh c w of
        (Inr tok, c1, w1) \<Rightarrow> (Inr tok, c1, w1)
      | (Inl e, c1, w1) \<Rightarrow>
          if attempt = retries - 1
          then (Inl (AuthError (Failed_to_acquire_token retries e)), c1, w1)
          else refresh_loop rest c1 (sleep (backoff * (attempt + 1)) w1))"

definition refresh_token :: "client \<Rightarrow> world \<Rightarrow> (exn + json) \<times> client \<times> world" where
  "refresh_token c w = refresh_loop [0..<retries] c w"

text \<open>\<^verbatim>\<open>get_valid_token\<close>; the lock it holds has no effect on a single caller.\<close>

definition get_valid_token :: "client \<Rightarrow> world \<Rightarrow> (exn + json) \<times> client \<times> world" where
  "get_valid_token c w =
     (let is_expired = (case token_expiry c of None \<Rightarrow> True | Some e \<Rightarrow> e \<le> now w)
      in if \<not> truthy (access_token c) \<or> is_expired
         then refresh_token c w
         else (Inr (access_token c), c, w))"

text \<open>
  \<^verbatim>\<open>_get_auth_headers\<close>. The f-strings format the token with Python's \<^verbatim>\<open>str\<close>, which is
  the parameter \<open>str_of\<close> here. A cookie that is missing or empty is no session.
\<close>

definition sign_in_request :: "client_config \<Rightarrow> string \<Rightarrow> request" where
  "sign_in_request cfg bearer =
     \<lparr>meth = POST, url = sign_in_url cfg,
      headers = [(''Authorization'', ''Bearer '' @ bearer), (''Accept'', ''application/json'')],
      data = [], timeout = 10\<rparr>"

definition auth_headers :: "string \<Rightarrow> string \<Rightarrow> (string \<times> string) list" where
  "auth_headers bearer session_id =
     [(''Authorization'', ''Bearer '' @ bearer),
      (''Cookie'', ''ASP.NET_SessionId='' @ session_id),
      (''Accept'', ''application/json'')]"

definition get_auth_headers ::
  "(json \<Rightarrow> string) \<Rightarrow> client \<Rightarrow> world \<Rightarrow> (exn + (string \<times> string) list) \<times> client \<times> world" where
  "get_auth_headers str_of c w =
     (case get_valid_token c w of
        (Inl e, c1, w1) \<Rightarrow> (Inl e, c1, w1)
      | (Inr token, c1, w1) \<Rightarrow>
          (case http (sign_in_request (config c1) (str_of token)) w1 of
             (Raises e, w2) \<Rightarrow> (Inl e, c1, w2)
           | (Responds resp, w2) \<Rightarrow>
               (case raise_for_status resp of
                  Some e \<Rightarrow> (Inl e, c1, w2)
                | None \<Rightarrow>
                    (case map_of (cookies resp) ''ASP.NET_SessionId'' of
                       None \<Rightarrow> (Inl (AuthError SessionId_not_returned), c1, w2)
                     | Some session_id \<Rightarrow>
                         if session_id = []
                         then (Inl (AuthError SessionId_not_returned), c1, w2)
                         else (Inr (auth_headers (str_of token) session_id), c1, w2)))))"

section \<open>Secret lookup\<close>

text \<open>\<^verbatim>\<open>next((f for f in folders if f.get("Name") == folder_name), None)\<close>: the scan stops
  at the first match and does not look at what follows it.\<close>

fun first_folder :: "string \<Rightarrow> json list \<Rightarrow> exn + json" where
  "first_folder folder_name [] = Inr JNull"
| "first_folder folder_name (f # fs) =
     (case py_get f ''Name'' JNull of
        Inl e \<Rightarrow> Inl e
      | Inr n \<Rightarrow> if n = JStr folder_name then Inr f else first_folder folder_name fs)"

text \<open>\<^verbatim>\<open>folder.get("Id") or folder.get("ID")\<close>\<close>

definition folder_id :: "json \<Rightarrow> exn + json" where
  "folder_id folder =
     (case py_get folder ''Id'' JNull of
        Inl e \<Rightarrow> Inl e
      | Inr a \<Rightarrow> if truthy a then Inr a else py_get folder ''ID'' JNull)"

text \<open>\<^verbatim>\<open>{item["Title"]: item.get("Password", "") for item in items}\<close>, filled from the
  left, a later item overwriting an earlier one of the same key.\<close>

fun secrets_dict :: "json list \<Rightarrow> (json \<rightharpoonup> json) \<Rightarrow> exn + (json \<rightharpoonup> json)" where
  "secrets_dict [] m = Inr m"
| "secrets_dict (item # items) m =
     (case subscript item ''Title'' of
        Inl e \<Rightarrow> Inl e
      | Inr title \<Rightarrow>
          (case py_get item ''Password'' (JStr []) of
             Inl e \<Rightarrow> Inl e
           | Inr password \<Rightarrow>
               (case hash_key title of
                  Inl e \<Rightarrow> Inl e
                | Inr k \<Rightarrow> secrets_dict items (m(k \<mapsto> password)))))"

definition folders_request :: "client_config \<Rightarrow> (string \<times> string) list \<Rightarrow> request" where
  "folders_request cfg hs =
     \<lparr>meth = GET, url = base_url cfg @ ''/Folders'', headers = hs, data = [], timeout = 10\<rparr>"

definition secrets_request :: "client_config \<Rightarrow> string \<Rightarrow> (string \<times> string) list \<Rightarrow> request" where
  "secrets_request cfg f_id hs =
     \<lparr>meth = GET, url = base_url cfg @ ''/Folders/'' @ f_id @ ''/secrets'', headers = hs,
      data = [], timeout = 10\<rparr>"

text \<open>Step 1 of \<^verbatim>\<open>get_secrets\<close>, "Resolve Folder ID": the headers, the folder listing,
  the scan, and the error for a name that is not there.\<close>

definition resolve_folder ::
  "(json \<Rightarrow> string) \<Rightarrow> string \<Rightarrow> client \<Rightarrow> world
     \<Rightarrow> (exn + (string \<times> string) list \<times> json) \<times> client \<times> world" where
  "resolve_folder str_of folder_name c w =
     (case get_auth_headers str_of c w of
        (Inl e, c1, w1) \<Rightarrow> (Inl e, c1, w1)
      | (Inr hs, c1, w1) \<Rightarrow>
          (case http (folders_request (config c1) hs) w1 of
             (Raises e, w2) \<Rightarrow> (Inl e, c1, w2)
           | (Responds folder_resp, w2) \<Rightarrow>
               (case raise_for_status folder_resp of
                  Some e \<Rightarrow> (Inl e, c1, w2)
                | None \<Rightarrow>
                    (case body folder_resp of
                       Inl e \<Rightarrow> (Inl e, c1, w2)
                     | Inr listing \<Rightarrow>
                         (case py_iter listing of
                            Inl e \<Rightarrow> (Inl e, c1, w2)
                          | Inr fs \<Rightarrow>
                              (case first_folder folder_name fs of
                                 Inl e \<Rightarrow> (Inl e, c1, w2)
                               | Inr folder \<Rightarrow>
                                   if \<not> truthy folder
                                   then (Inl (ResourceNotFoundError folder_name), c1, w2)
                                   else (Inr (hs, folder), c1, w2)))))))"

text \<open>Step 2, "Fetch Secrets".\<close>

definition fetch_secrets ::
  "(json \<Rightarrow> string) \<Rightarrow> (string \<times> string) list \<Rightarrow> json \<Rightarrow> client \<Rightarrow> world
     \<Rightarrow> (exn + (json \<rightharpoonup> json)) \<times> client \<times> world" where
  "fetch_secrets str_of hs folder c w =
     (case folder_id folder of
        Inl e \<Rightarrow> (Inl e, c, w)
      | Inr f_id \<Rightarrow>
          (case http (secrets_request (config c) (str_of f_id) hs) w of
             (Raises e, w1) \<Rightarrow> (Inl e, c, w1)
           | (Responds secrets_resp, w1) \<Rightarrow>
               (case raise_for_status secrets_resp of
                  Some e \<Rightarrow> (Inl e, c, w1)
                | None \<Rightarrow>
                    (case body secrets_resp of
                       Inl e \<Rightarrow> (Inl e, c, w1)
                     | Inr listing \<Rightarrow>
                         (case py_iter listing of
                            Inl e \<Rightarrow> (Inl e, c, w1)
                          | Inr items \<Rightarrow>
                              (case secrets_dict items Map.empty of
                                 Inl e \<Rightarrow> (Inl e, c, w1)
                               | Inr m \<Rightarrow> (Inr m, c, w1)))))))"

text \<open>The body of the \<^verbatim>\<open>try\<close> in \<^verbatim>\<open>get_secrets\<close>, then the function with its
  \<^verbatim>\<open>except requests.RequestException\<close>: every other exception passes through.\<close>

definition get_secrets_try ::
  "(json \<Rightarrow> string) \<Rightarrow> string \<Rightarrow> client \<Rightarrow> world \<Rightarrow> (exn + (json \<rightharpoonup> json)) \<times> client \<times> world" where
  "get_secrets_try str_of folder_name c w =
     (case resolve_folder str_of folder_name c w of
        (Inl e, c1, w1) \<Rightarrow> (Inl e, c1, w1)
      | (Inr (hs, folder), c1, w1) \<Rightarrow> fetch_secrets str_of hs folder c1 w1)"

definition get_secrets ::
  "(json \<Rightarrow> string) \<Rightarrow> string \<Rightarrow> client \<Rightarrow> world \<Rightarrow> (exn + (json \<rightharpoonup> json)) \<times> client \<times> world" where
  "get_secrets str_of folder_name c w =
     (case get_secrets_try str_of folder_name c w of
        (Inl e, c1, w1) \<Rightarrow>
          if is_RequestException e then (Inl (BeyondTrustError e), c1, w1) else (Inl e, c1, w1)
      | (Inr m, c1, w1) \<Rightarrow> (Inr m, c1, w1))"

section \<open>Notions the statements need\<close>

text \<open>The exception with which the transport fails an attempt: the one the call
  raises, or the one \<^verbatim>\<open>raise_for_status\<close> raises on its response.\<close>

definition transport_failure :: "outcome \<Rightarrow> exn option" where
  "transport_failure out =
     (case out of Raises e \<Rightarrow> Some e | Responds resp \<Rightarrow> raise_for_status resp)"

text \<open>The number of seconds a token response carries as \<^verbatim>\<open>expires_in\<close>: the integer
  under that key, 3600 when the key is absent.\<close>

definition expires_in_seconds :: "(string \<times> json) list \<Rightarrow> int option" where
  "expires_in_seconds kvs =
     (case map_of kvs ''expires_in'' of
        None \<Rightarrow> Some 3600
      | Some (JInt n) \<Rightarrow> Some n
      | Some (JBool b) \<Rightarrow> Some (if b then 1 else 0)
      | Some _ \<Rightarrow> None)"

text \<open>The cache check of \<^verbatim>\<open>get_valid_token\<close>: a token that is set and not empty, and
  a clock strictly before the stored expiry.\<close>

definition cache_valid :: "client \<Rightarrow> world \<Rightarrow> bool" where
  "cache_valid c w =
     (truthy (access_token c) \<and> (case token_expiry c of None \<Rightarrow> False | Some e \<Rightarrow> now w < e))"

text \<open>The world in which the next attempt starts once attempt number \<open>attempt\<close>
  (counted from 0, as the loop does) has failed and is not the last.\<close>

definition after_failed_attempt :: "nat \<Rightarrow> client \<Rightarrow> world \<Rightarrow> world" where
  "after_failed_attempt attempt c w =
     sleep (backoff * (attempt + 1)) (snd (http (token_request (config c)) w))"

text \<open>What a caller of \<^verbatim>\<open>_refresh_token\<close> hands on when the refresh gave up on the
  error \<open>e\<close>: that \<^verbatim>\<open>AuthError\<close>, the client as it was, and the world the refresh left.\<close>

definition refresh_error :: "client \<Rightarrow> world \<Rightarrow> exn \<Rightarrow> (exn + 'a) \<times> client \<times> world" where
  "refresh_error c w e =
     (Inl (AuthError (Failed_to_acquire_token 3 e)), c, snd (snd (refresh_token c w)))"

text \<open>The entry a well-formed secret contributes to the result: its title as a dict
  key, and its password, the empty string when it has none. An item that is no object,
  has no title or an unhashable one, contributes nothing.\<close>

fun secret_entry :: "json \<Rightarrow> (json \<times> json) option" where
  "secret_entry (JObj kvs) =
     (case map_of kvs ''Title'' of
        None \<Rightarrow> None
      | Some title \<Rightarrow>
          (case hash_key title of
             Inl e \<Rightarrow> None
           | Inr k \<Rightarrow> Some (k, case map_of kvs ''Password'' of None \<Rightarrow> JStr [] | Some p \<Rightarrow> p)))"
| "secret_entry _ = None"

text \<open>An item of the secrets listing that is an object without a \<^verbatim>\<open>Title\<close> field.\<close>

fun lacks_title :: "json \<Rightarrow> bool" where
  "lacks_title (JObj kvs) = (map_of kvs ''Title'' = None)"
| "lacks_title _ = False"

text \<open>The test of the folder scan on an object: its \<^verbatim>\<open>Name\<close> is the string asked for.\<close>

definition named :: "string \<Rightarrow> (string \<times> json) list \<Rightarrow> bool" where
  "named folder_name kvs = (map_of kvs ''Name'' = Some (JStr folder_name))"

section \<open>Concrete configurations, networks and responses\<close>

definition example_config :: client_config where
  "example_config =
     \<lparr>token_url = ''https://vault.example/oauth/token'',
      sign_in_url = ''https://vault.example/api/Auth/SignAppin'',
      client_id = ''robot'', client_secret = ''s3cret'',
      base_url = ''https://vault.example/api''\<rparr>"

definition example_now :: datetime where
  "example_now = 63900000000000000"

definition world_with :: "(nat \<Rightarrow> request \<Rightarrow> nat \<times> outcome) \<Rightarrow> world" where
  "world_with n = \<lparr>now = example_now, sent = [], slept = [], net = n\<rparr>"

definition json_response :: "json \<Rightarrow> response" where
  "json_response v = \<lparr>status_code = 200, body = Inr v, cookies = []\<rparr>"

definition token_reply :: "string \<Rightarrow> json \<Rightarrow> outcome" where
  "token_reply tok expires_in =
     Responds (json_response (JObj [(''access_token'', JStr tok), (''expires_in'', expires_in)]))"

text \<open>A token endpoint that grants ten seconds.\<close>

definition short_lived_net :: "nat \<Rightarrow> request \<Rightarrow> nat \<times> outcome" where
  "short_lived_net k rq = (0, token_reply ''t'' (JInt 10))"

text \<open>A token endpoint that cannot be reached.\<close>

definition down_net :: "nat \<Rightarrow> request \<Rightarrow> nat \<times> outcome" where
  "down_net k rq = (0, Raises (RequestException ''connection refused''))"

text \<open>One that cannot be reached twice and then grants an hour.\<close>

definition flaky_net :: "nat \<Rightarrow> request \<Rightarrow> nat \<times> outcome" where
  "flaky_net k rq =
     (0, if k < 2 then Raises (RequestException ''connection refused'')
         else token_reply ''t'' (JInt 3600))"

text \<open>One that sends \<^verbatim>\<open>expires_in\<close> as a string.\<close>

definition string_expiry_net :: "nat \<Rightarrow> request \<Rightarrow> nat \<times> outcome" where
  "string_expiry_net k rq = (0, token_reply ''new'' (JStr ''3600''))"

text \<open>One that sends no \<^verbatim>\<open>expires_in\<close>, after a quarter of a second.\<close>

definition no_expiry_net :: "nat \<Rightarrow> request \<Rightarrow> nat \<times> outcome" where
  "no_expiry_net k rq =
     (250000, Responds (json_response (JObj [(''access_token'', JStr ''t'')])))"

definition cached_client :: client where
  "cached_client =
     \<lparr>config = example_config, access_token = JStr ''old'',
      token_expiry = Some (example_now + 1)\<rparr>"

text \<open>Python's \<^verbatim>\<open>str\<close> on the values the runs below format: strings, \<^verbatim>\<open>None\<close>,
  booleans and integers. No run formats a list or a dict.\<close>

fun digits :: "nat \<Rightarrow> string" where
  "digits n =
     (if n < 10 then [char_of (48 + n)] else digits (n div 10) @ [char_of (48 + n mod 10)])"

fun str_of_scalar :: "json \<Rightarrow> string" where
  "str_of_scalar (JStr s) = s"
| "str_of_scalar JNull = ''None''"
| "str_of_scalar (JBool b) = (if b then ''True'' else ''False'')"
| "str_of_scalar (JInt n) = (if n < 0 then CHR ''-'' # digits (nat (- n)) else digits (nat n))"
| "str_of_scalar _ = []"

definition session_reply :: outcome where
  "session_reply =
     Responds \<lparr>status_code = 200, body = Inr (JObj []),
               cookies = [(''ASP.NET_SessionId'', ''abc'')]\<rparr>"

definition finance_folders :: "(string \<times> json) list list" where
  "finance_folders =
     [[(''Name'', JStr ''finance''), (''Id'', JInt 7)],
      [(''Name'', JStr ''Finance''), (''Id'', JInt 42)],
      [(''Name'', JStr ''Finance''), (''Id'', JInt 43)]]"

definition finance_secrets :: "json list" where
  "finance_secrets =
     [JObj [(''Title'', JStr ''db''), (''Password'', JStr ''p1'')],
      JObj [(''Title'', JStr ''api''), (''Password'', JStr [])]]"

definition untitled_secrets :: "json list" where
  "untitled_secrets =
     [JObj [(''Title'', JStr ''db''), (''Password'', JStr ''p1'')],
      JObj [(''Password'', JStr ''p2'')]]"

text \<open>A vault that grants a token, signs the session in, lists the folders and then
  answers with the given secrets listing.\<close>

definition vault_net :: "json list \<Rightarrow> nat \<Rightarrow> request \<Rightarrow> nat \<times> outcome" where
  "vault_net secrets k rq =
     (0, if k = 0 then token_reply ''t'' (JInt 3600)
         else if k = 1 then session_reply
         else if k = 2 then Responds (json_response (JArr (map JObj finance_folders)))
         else Responds (json_response (JArr secrets)))"

text \<open>A vault that grants a token and refuses the sign-in with 401.\<close>

definition signin_401_net :: "nat \<Rightarrow> request \<Rightarrow> nat \<times> outcome" where
  "signin_401_net k rq =
     (0, if k = 0 then token_reply ''t'' (JInt 3600)
         else Responds \<lparr>status_code = 401, body = Inl (ValueError ''no JSON''), cookies = []\<rparr>)"

text \<open>The client and the world once the token of those vaults is cached and the
  session signed in.\<close>

definition signed_in_client :: client where
  "signed_in_client =
     \<lparr>config = example_config, access_token = JStr ''t'',
      token_expiry = Some (example_now + 3570 * 1000000)\<rparr>"

definition signed_in_headers :: "(string \<times> string) list" where
  "signed_in_headers = auth_headers ''t'' ''abc''"

definition signed_in_world :: "json list \<Rightarrow> world" where
  "signed_in_world secrets =
     \<lparr>now = example_now,
      sent = [token_request example_config, sign_in_request example_config ''t''],
      slept = [], net = vault_net secrets\<rparr>"

text \<open>The world after the folder listing, and after the secrets listing of folder 42.\<close>

definition listed_world :: "json list \<Rightarrow> world" where
  "listed_world secrets =
     \<lparr>now = example_now,
      sent = [token_request example_config, sign_in_request example_config ''t'',
              folders_request example_config signed_in_headers],
      slept = [], net = vault_net secrets\<rparr>"

definition fetched_world :: "json list \<Rightarrow> world" where
  "fetched_world secrets =
     \<lparr>now = example_now,
      sent = [token_request example_config, sign_in_request example_config ''t'',
              folders_request example_config signed_in_headers,
              secrets_request example_config ''42'' signed_in_headers],
      slept = [], net = vault_net secrets\<rparr>"

definition repeated_secrets :: "json list" where
  "repeated_secrets =
     [JObj [(''Title'', JStr ''db''), (''Password'', JStr ''p1'')],
      JObj [(''Title'', JStr ''db'')]]"

section \<open>The retry loop, unfolded\<close>

lemma upt_3: "[0..<3] = [0, 1, 2]"
  by (simp add: upt_rec)

lemma refresh_token_unfold:
  "refresh_token c w =
     (case try_refresh c w of
        (Inr tok, c1, w1) \<Rightarrow> (Inr tok, c1, w1)
      | (Inl e1, c1, w1) \<Rightarrow>
          (case try_refresh c1 (sleep 2 w1) of
             (Inr tok, c2, w2) \<Rightarrow> (Inr tok, c2, w2)
           | (Inl e2, c2, w2) \<Rightarrow>
               (case try_refresh c2 (sleep 4 w2) of
                  (Inr tok, c3, w3) \<Rightarrow> (Inr tok, c3, w3)
                | (Inl e3, c3, w3) \<Rightarrow> (Inl (AuthError (Failed_to_acquire_token 3 e3)), c3, w3))))"
  by (simp add: refresh_token_def retries_def backoff_def upt_3 split: prod.splits sum.splits)

lemma http_world:
  "snd (http rq w) = w\<lparr>now := now w + int (fst (net w (length (sent w)) rq)), sent := sent w @ [rq]\<rparr>"
  "fst (http rq w) = snd (net w (length (sent w)) rq)"
  by (simp_all add: http_def split: prod.splits)

lemma try_refresh_world: "snd (snd (try_refresh c w)) = snd (http (token_request (config c)) w)"
  by (simp add: try_refresh_def split: prod.splits outcome.splits option.splits sum.splits)

lemma try_refresh_config: "config (fst (snd (try_refresh c w))) = config c"
  by (simp add: try_refresh_def split: prod.splits outcome.splits option.splits sum.splits)

lemma try_refresh_sent:
  "sent (snd (snd (try_refresh c w))) = sent w @ [token_request (config c)]"
  by (simp add: try_refresh_world http_world)

lemma try_refresh_slept: "slept (snd (snd (try_refresh c w))) = slept w"
  by (simp add: try_refresh_world http_world)

lemma try_refresh_net: "net (snd (snd (try_refresh c w))) = net w"
  by (simp add: try_refresh_world http_world)

lemma refresh_token_sends: "length (sent w) < length (sent (snd (snd (refresh_token c w))))"
proof -
  obtain r1 c1 w1 where t1: "try_refresh c w = (r1, c1, w1)" by (cases "try_refresh c w") auto
  obtain r2 c2 w2 where t2: "try_refresh c1 (sleep 2 w1) = (r2, c2, w2)"
    by (cases "try_refresh c1 (sleep 2 w1)") auto
  obtain r3 c3 w3 where t3: "try_refresh c2 (sleep 4 w2) = (r3, c3, w3)"
    by (cases "try_refresh c2 (sleep 4 w2)") auto
  have s1: "length (sent w1) = Suc (length (sent w))"
    using try_refresh_sent [of c w] t1 by simp
  have s2: "length (sent w2) = Suc (length (sent w1))"
    using try_refresh_sent [of c1 "sleep 2 w1"] t2 by (simp add: sleep_def)
  have s3: "length (sent w3) = Suc (length (sent w2))"
    using try_refresh_sent [of c2 "sleep 4 w2"] t3 by (simp add: sleep_def)
  show ?thesis
    using s1 s2 s3 by (simp add: refresh_token_unfold t1 t2 t3 split: sum.splits)
qed

lemma try_refresh_transport_failure:
  assumes "transport_failure (snd (net w (length (sent w)) (token_request (config c)))) = Some e"
  shows "try_refresh c w = (Inl e, c, snd (http (token_request (config c)) w))"
proof (cases "net w (length (sent w)) (token_request (config c))")
  case (Pair d out)
  with assms show ?thesis
    by (cases out) (simp_all add: try_refresh_def transport_failure_def http_def)
qed

lemma sleep_fields:
  "now (sleep n w) = now w + 1000000 * int n" "sent (sleep n w) = sent w"
  "slept (sleep n w) = slept w @ [n]" "net (sleep n w) = net w"
  by (simp_all add: sleep_def)

lemma http_fields:
  "sent (snd (http rq w)) = sent w @ [rq]" "slept (snd (http rq w)) = slept w"
  "net (snd (http rq w)) = net w"
  by (simp_all add: http_world)

lemma refresh_token_three_failures:
  assumes f1: "transport_failure (snd (net w (length (sent w)) (token_request (config c)))) = Some e1"
    and f2: "transport_failure (snd (net w (length (sent w) + 1) (token_request (config c)))) = Some e2"
    and f3: "transport_failure (snd (net w (length (sent w) + 2) (token_request (config c)))) = Some e3"
  shows "fst (refresh_token c w) = Inl (AuthError (Failed_to_acquire_token 3 e3))"
    and "fst (snd (refresh_token c w)) = c"
    and "sent (snd (snd (refresh_token c w))) = sent w @ replicate 3 (token_request (config c))"
    and "slept (snd (snd (refresh_token c w))) = slept w @ [2, 4]"
proof -
  let ?rq = "token_request (config c)"
  let ?w1 = "snd (http ?rq w)"
  let ?w2 = "snd (http ?rq (sleep 2 ?w1))"
  let ?w3 = "snd (http ?rq (sleep 4 ?w2))"
  have t1: "try_refresh c w = (Inl e1, c, ?w1)"
    using f1 by (rule try_refresh_transport_failure)
  have t2: "try_refresh c (sleep 2 ?w1) = (Inl e2, c, ?w2)"
    by (rule try_refresh_transport_failure) (use f2 in \<open>simp add: sleep_fields http_fields\<close>)
  have t3: "try_refresh c (sleep 4 ?w2) = (Inl e3, c, ?w3)"
    by (rule try_refresh_transport_failure)
       (use f3 in \<open>simp add: sleep_fields http_fields numeral_2_eq_2\<close>)
  have r: "refresh_token c w = (Inl (AuthError (Failed_to_acquire_token 3 e3)), c, ?w3)"
    by (simp add: refresh_token_unfold t1 t2 t3)
  show "fst (refresh_token c w) = Inl (AuthError (Failed_to_acquire_token 3 e3))"
    by (simp add: r)
  show "fst (snd (refresh_token c w)) = c" by (simp add: r)
  show "sent (snd (snd (refresh_token c w))) = sent w @ replicate 3 (token_request (config c))"
    by (simp add: r sleep_fields http_fields numeral_3_eq_3)
  show "slept (snd (snd (refresh_token c w))) = slept w @ [2, 4]"
    by (simp add: r sleep_fields http_fields)
qed

lemma refresh_token_cases:
  obtains (first) tok c1 w1 where "try_refresh c w = (Inr tok, c1, w1)"
      "refresh_token c w = (Inr tok, c1, w1)"
  | (second) e1 c1 w1 tok c2 w2 where "try_refresh c w = (Inl e1, c1, w1)"
      "try_refresh c1 (sleep 2 w1) = (Inr tok, c2, w2)"
      "refresh_token c w = (Inr tok, c2, w2)"
  | (third) e1 c1 w1 e2 c2 w2 tok c3 w3 where "try_refresh c w = (Inl e1, c1, w1)"
      "try_refresh c1 (sleep 2 w1) = (Inl e2, c2, w2)"
      "try_refresh c2 (sleep 4 w2) = (Inr tok, c3, w3)"
      "refresh_token c w = (Inr tok, c3, w3)"
  | (failed) e1 c1 w1 e2 c2 w2 e3 c3 w3 where "try_refresh c w = (Inl e1, c1, w1)"
      "try_refresh c1 (sleep 2 w1) = (Inl e2, c2, w2)"
      "try_refresh c2 (sleep 4 w2) = (Inl e3, c3, w3)"
      "refresh_token c w = (Inl (AuthError (Failed_to_acquire_token 3 e3)), c3, w3)"
proof -
  obtain r1 c1 w1 where t1: "try_refresh c w = (r1, c1, w1)"
    by (cases "try_refresh c w") auto
  obtain r2 c2 w2 where t2: "try_refresh c1 (sleep 2 w1) = (r2, c2, w2)"
    by (cases "try_refresh c1 (sleep 2 w1)") auto
  obtain r3 c3 w3 where t3: "try_refresh c2 (sleep 4 w2) = (r3, c3, w3)"
    by (cases "try_refresh c2 (sleep 4 w2)") auto
  show thesis
  proof (cases r1)
    case (Inr tok)
    then show thesis using t1 first by (simp add: refresh_token_unfold)
  next
    case e1: (Inl e1)
    show thesis
    proof (cases r2)
      case (Inr tok)
      then show thesis using t1 t2 e1 second by (simp add: refresh_token_unfold)
    next
      case e2: (Inl e2)
      show thesis
      proof (cases r3)
        case (Inr tok)
        then show thesis using t1 t2 t3 e1 e2 third by (simp add: refresh_token_unfold)
      next
        case (Inl e3)
        then show thesis using t1 t2 t3 e1 e2 failed by (simp add: refresh_token_unfold)
      qed
    qed
  qed
qed

lemma try_refresh_parts:
  assumes "try_refresh c w = (r, c1, w1)"
  shows "w1 = snd (http (token_request (config c)) w)" and "config c1 = config c"
  using try_refresh_world [of c w] try_refresh_config [of c w] assms by simp_all

lemma refresh_token_log:
  "\<exists>k<3. slept (snd (snd (refresh_token c w))) = slept w @ map (\<lambda>i. backoff * (i + 1)) [0..<k]
        \<and> sent (snd (snd (refresh_token c w))) = sent w @ replicate (k + 1) (token_request (config c))"
proof (cases c w rule: refresh_token_cases)
  case (first tok c1 w1)
  then show ?thesis
    by (intro exI [of _ 0]) (simp add: try_refresh_parts [OF first(1)] http_fields)
next
  case (second e1 c1 w1 tok c2 w2)
  then show ?thesis
    by (intro exI [of _ 1])
       (simp add: try_refresh_parts [OF second(1)] try_refresh_parts [OF second(2)]
          http_fields sleep_fields backoff_def)
next
  case (third e1 c1 w1 e2 c2 w2 tok c3 w3)
  then show ?thesis
    by (intro exI [of _ 2])
       (simp add: try_refresh_parts [OF third(1)] try_refresh_parts [OF third(2)]
          try_refresh_parts [OF third(3)] http_fields sleep_fields backoff_def
          numeral_2_eq_2 upt_rec)
next
  case (failed e1 c1 w1 e2 c2 w2 e3 c3 w3)
  then show ?thesis
    by (intro exI [of _ 2])
       (simp add: try_refresh_parts [OF failed(1)] try_refresh_parts [OF failed(2)]
          try_refresh_parts [OF failed(3)] http_fields sleep_fields backoff_def
          numeral_2_eq_2 upt_rec)
qed

lemma try_refresh_success:
  assumes "try_refresh c w = (Inr tok, c1, w1)"
  shows "\<exists>resp kvs E.
           snd (net w (length (sent w)) (token_request (config c))) = Responds resp
         \<and> raise_for_status resp = None
         \<and> body resp = Inr (JObj kvs)
         \<and> map_of kvs ''access_token'' = Some tok
         \<and> expires_in_seconds kvs = Some E
         \<and> access_token c1 = tok
         \<and> token_expiry c1 = Some (now w1 + (E - 30) * 1000000)"
proof (cases "net w (length (sent w)) (token_request (config c))")
  case (Pair d out)
  show ?thesis
  proof (cases out)
    case (Raises e)
    with Pair assms show ?thesis by (simp add: try_refresh_def http_def)
  next
    case (Responds resp)
    note h = Pair Responds
    show ?thesis
    proof (cases "raise_for_status resp")
      case (Some e)
      with h assms show ?thesis by (simp add: try_refresh_def http_def)
    next
      case None
      show ?thesis
      proof (cases "body resp")
        case (Inl e)
        with h None assms show ?thesis by (simp add: try_refresh_def http_def)
      next
        case (Inr dat)
        show ?thesis
        proof (cases dat)
          case (JObj kvs)
          show ?thesis
          proof (cases "map_of kvs ''access_token''")
            case no: None
            with h None Inr JObj assms show ?thesis by (simp add: try_refresh_def http_def)
          next
            case tok': (Some tok')
            have w1: "w1 = w\<lparr>now := now w + int d, sent := sent w @ [token_request (config c)]\<rparr>"
              using try_refresh_parts(1) [OF assms] h by (simp add: http_def)
            show ?thesis
            proof (cases "map_of kvs ''expires_in''")
              case dflt: None
              with h None Inr JObj tok' assms w1 show ?thesis
                by (auto simp: try_refresh_def http_def expires_in_seconds_def expiry_from_def
                      timedelta_seconds_def datetime_add_def split: if_splits)
            next
              case (Some v)
              with h None Inr JObj tok' assms w1 show ?thesis
                by (cases v)
                   (auto simp: try_refresh_def http_def expires_in_seconds_def expiry_from_def
                      timedelta_seconds_def datetime_add_def split: if_splits)
            qed
          qed
        qed (use h None Inr assms in \<open>simp_all add: try_refresh_def http_def\<close>)
      qed
    qed
  qed
qed

lemma try_refresh_keeps:
  assumes "try_refresh c w = (r, c1, w1)"
  shows "config c1 = config c" and "net w1 = net w"
    and "sent w1 = sent w @ [token_request (config c)]" and "slept w1 = slept w"
  using try_refresh_config [of c w] try_refresh_net [of c w] try_refresh_sent [of c w]
    try_refresh_slept [of c w] assms
  by simp_all

lemma refresh_token_success:
  assumes "refresh_token c w = (Inr tok, c', w')"
  shows "\<exists>c0 w0. try_refresh c0 w0 = (Inr tok, c', w') \<and> config c0 = config c
           \<and> net w0 = net w \<and> length (sent w') - 1 = length (sent w0)"
proof (cases c w rule: refresh_token_cases)
  case (first tok1 c1 w1)
  then have t: "try_refresh c w = (Inr tok, c', w')" using assms by simp
  have "length (sent w') - 1 = length (sent w)"
    by (simp add: try_refresh_keeps(3) [OF t])
  with t show ?thesis by blast
next
  case (second e1 c1 w1 tok2 c2 w2)
  then have t: "try_refresh c1 (sleep 2 w1) = (Inr tok, c', w')" using assms by simp
  have "length (sent w') - 1 = length (sent (sleep 2 w1))"
    by (simp add: try_refresh_keeps(3) [OF t])
  moreover have "net (sleep 2 w1) = net w"
    by (simp add: sleep_fields try_refresh_keeps(2) [OF second(1)])
  moreover have "config c1 = config c"
    by (rule try_refresh_keeps(1) [OF second(1)])
  ultimately show ?thesis using t by blast
next
  case (third e1 c1 w1 e2 c2 w2 tok3 c3 w3)
  then have t: "try_refresh c2 (sleep 4 w2) = (Inr tok, c', w')" using assms by simp
  have "length (sent w') - 1 = length (sent (sleep 4 w2))"
    by (simp add: try_refresh_keeps(3) [OF t])
  moreover have "net (sleep 4 w2) = net w"
    by (simp add: sleep_fields try_refresh_keeps(2) [OF third(1)]
          try_refresh_keeps(2) [OF third(2)])
  moreover have "config c2 = config c"
    by (simp add: try_refresh_keeps(1) [OF third(1)] try_refresh_keeps(1) [OF third(2)])
  ultimately show ?thesis using t by blast
next
  case (failed e1 c1 w1 e2 c2 w2 e3 c3 w3)
  then show ?thesis using assms by simp
qed

lemma get_valid_token_unfold:
  "get_valid_token c w = (if cache_valid c w then (Inr (access_token c), c, w) else refresh_token c w)"
  by (auto simp: get_valid_token_def cache_valid_def split: option.splits)

lemma get_secrets_token_failure:
  assumes "get_valid_token c w = (Inl e, c1, w1)" and "\<not> is_RequestException e"
  shows "get_secrets str_of folder_name c w = (Inl e, c1, w1)"
  using assms
  by (simp add: get_secrets_def get_secrets_try_def resolve_folder_def get_auth_headers_def)

section \<open>Serving the token\<close>

text \<open>
  C1, as the code has it. A call returns the cached token, and touches neither the cache
  nor the network, exactly when the cached token is set and not empty and the clock is
  strictly before the stored expiry; the expiry of the token so returned has not passed.
  In every other case the call is \<^verbatim>\<open>_refresh_token\<close>, which sends at least one
  request. When that refresh returns a token, it is the token of the last response and
  it is stored with the expiry \<open>T + E - 30\<close> seconds, \<open>T\<close> the clock at the moment of
  return and \<open>E\<close> the \<^verbatim>\<open>expires_in\<close> of that response (3600 when absent): an expiry
  that has not passed at the moment of return exactly when \<open>E\<close> is more than 30.
\<close>

theorem get_valid_token_cached_or_refreshed:
  "(cache_valid c w \<longrightarrow>
      get_valid_token c w = (Inr (access_token c), c, w)
      \<and> (\<exists>e. token_expiry c = Some e \<and> now w < e))
   \<and> (\<not> cache_valid c w \<longrightarrow>
      get_valid_token c w = refresh_token c w
      \<and> length (sent w) < length (sent (snd (snd (refresh_token c w))))
      \<and> (\<forall>tok c' w'. get_valid_token c w = (Inr tok, c', w') \<longrightarrow>
            (\<exists>resp kvs E e.
                snd (net w (length (sent w') - 1) (token_request (config c))) = Responds resp
              \<and> body resp = Inr (JObj kvs)
              \<and> map_of kvs ''access_token'' = Some tok
              \<and> expires_in_seconds kvs = Some E
              \<and> access_token c' = tok
              \<and> token_expiry c' = Some e
              \<and> e = now w' + (E - 30) * 1000000
              \<and> (now w' < e) = (30 < E))))"
proof -
  have cached: "cache_valid c w \<longrightarrow>
      get_valid_token c w = (Inr (access_token c), c, w)
      \<and> (\<exists>e. token_expiry c = Some e \<and> now w < e)"
    by (auto simp: get_valid_token_unfold cache_valid_def split: option.splits)
  have refreshed: "get_valid_token c w = refresh_token c w" if "\<not> cache_valid c w"
    using that by (simp add: get_valid_token_unfold)
  have sends: "length (sent w) < length (sent (snd (snd (refresh_token c w))))"
    by (rule refresh_token_sends)
  have stored: "\<exists>resp kvs E e.
                snd (net w (length (sent w') - 1) (token_request (config c))) = Responds resp
              \<and> body resp = Inr (JObj kvs)
              \<and> map_of kvs ''access_token'' = Some tok
              \<and> expires_in_seconds kvs = Some E
              \<and> access_token c' = tok
              \<and> token_expiry c' = Some e
              \<and> e = now w' + (E - 30) * 1000000
              \<and> (now w' < e) = (30 < E)"
    if inv: "\<not> cache_valid c w" and ret: "get_valid_token c w = (Inr tok, c', w')"
    for tok c' w'
  proof -
    have run: "refresh_token c w = (Inr tok, c', w')"
      using refreshed [OF inv] ret by simp
    from refresh_token_success [OF run] obtain c0 w0 where
      t: "try_refresh c0 w0 = (Inr tok, c', w')" and cfg: "config c0 = config c"
      and nt: "net w0 = net w" and len: "length (sent w') - 1 = length (sent w0)"
      by blast
    from try_refresh_success [OF t] obtain resp kvs E where
      r: "snd (net w0 (length (sent w0)) (token_request (config c0))) = Responds resp"
      and b: "body resp = Inr (JObj kvs)" and a: "map_of kvs ''access_token'' = Some tok"
      and e: "expires_in_seconds kvs = Some E" and s: "access_token c' = tok"
      and x: "token_expiry c' = Some (now w' + (E - 30) * 1000000)"
      by blast
    have r': "snd (net w (length (sent w') - 1) (token_request (config c))) = Responds resp"
      using r cfg nt len by simp
    have p: "(now w' < now w' + (E - 30) * 1000000) = (30 < E)"
      by auto
    show ?thesis
      by (rule exI [of _ resp], rule exI [of _ kvs], rule exI [of _ E],
          rule exI [of _ "now w' + (E - 30) * 1000000"])
         (use r' b a e s x p in simp)
  qed
  show ?thesis
    using cached refreshed sends stored by blast
qed

theorem get_valid_token_cached_or_refreshed_witness:
  "cache_valid cached_client (world_with down_net)
   \<and> get_valid_token cached_client (world_with down_net)
       = (Inr (JStr ''old''), cached_client, world_with down_net)
   \<and> \<not> cache_valid (new_client example_config) (world_with no_expiry_net)
   \<and> get_valid_token (new_client example_config) (world_with no_expiry_net)
       = (Inr (JStr ''t''),
          \<lparr>config = example_config, access_token = JStr ''t'',
           token_expiry = Some (example_now + 250000 + 3570 * 1000000)\<rparr>,
          \<lparr>now = example_now + 250000, sent = [token_request example_config], slept = [],
           net = no_expiry_net\<rparr>)
   \<and> (\<exists>E. expires_in_seconds [(''access_token'', JStr ''t'')] = Some E \<and> 30 < E
          \<and> example_now + 250000 < example_now + 250000 + (E - 30) * 1000000)"
proof -
  let ?c = "new_client example_config"
  let ?w = "world_with no_expiry_net"
  let ?c' = "\<lparr>config = example_config, access_token = JStr ''t'',
              token_expiry = Some (example_now + 250000 + 3570 * 1000000)\<rparr>"
  let ?w' = "\<lparr>now = example_now + 250000, sent = [token_request example_config], slept = [],
              net = no_expiry_net\<rparr>"
  have v: "cache_valid cached_client (world_with down_net)"
    by (simp add: cache_valid_def cached_client_def world_with_def)
  have n: "\<not> cache_valid ?c ?w"
    by (simp add: cache_valid_def new_client_def)
  have run: "get_valid_token ?c ?w = (Inr (JStr ''t''), ?c', ?w')"
    by (simp add: get_valid_token_unfold cache_valid_def new_client_def refresh_token_unfold
          try_refresh_def http_def world_with_def no_expiry_net_def json_response_def
          raise_for_status_def expiry_from_def timedelta_seconds_def datetime_add_def
          datetime_max_def example_now_def)
  have hit: "get_valid_token cached_client (world_with down_net)
               = (Inr (JStr ''old''), cached_client, world_with down_net)"
    using v get_valid_token_cached_or_refreshed [of cached_client "world_with down_net"]
    by (simp add: cached_client_def)
  from n run get_valid_token_cached_or_refreshed [of ?c ?w] obtain resp kvs E e where
    r: "snd (net ?w (length (sent ?w') - 1) (token_request (config ?c))) = Responds resp"
    and b: "body resp = Inr (JObj kvs)" and s: "expires_in_seconds kvs = Some E"
    and x: "token_expiry ?c' = Some e" and y: "e = now ?w' + (E - 30) * 1000000"
    and z: "(now ?w' < e) = (30 < E)"
    by blast
  have "kvs = [(''access_token'', JStr ''t'')]"
    using r b by (auto simp: world_with_def new_client_def no_expiry_net_def json_response_def)
  moreover have "E = 3600"
    using x y by (simp add: example_now_def)
  ultimately have "expires_in_seconds [(''access_token'', JStr ''t'')] = Some E \<and> 30 < E
      \<and> example_now + 250000 < example_now + 250000 + (E - 30) * 1000000"
    using s by simp
  then show ?thesis
    using v hit n run by blast
qed

text \<open>
  C1 as the specification states it fails on a refresh: a token endpoint that
  grants ten seconds makes \<^verbatim>\<open>get_valid_token\<close> return a token whose stored expiry lies
  twenty seconds before the clock at the moment of return.
\<close>

theorem get_valid_token_expired_on_return:
  "fst (get_valid_token (new_client example_config) (world_with short_lived_net)) = Inr (JStr ''t'')
   \<and> token_expiry (fst (snd (get_valid_token (new_client example_config) (world_with short_lived_net))))
       = Some (example_now - 20000000)
   \<and> now (snd (snd (get_valid_token (new_client example_config) (world_with short_lived_net))))
       = example_now"
  by (simp add: get_valid_token_unfold cache_valid_def new_client_def refresh_token_unfold
        try_refresh_def http_def world_with_def short_lived_net_def token_reply_def
        json_response_def raise_for_status_def expiry_from_def timedelta_seconds_def
        datetime_add_def datetime_max_def example_now_def)

section \<open>Refreshing the token\<close>

text \<open>
  C3. When the transport fails every request to the token endpoint, \<^verbatim>\<open>_refresh_token\<close>
  raises \<^verbatim>\<open>AuthError\<close> made from the error of the third request, has sent exactly three
  requests and leaves the client as it was; its callers \<^verbatim>\<open>get_valid_token\<close> and
  \<^verbatim>\<open>get_secrets\<close> pass that error on without sending anything more.
\<close>

theorem refresh_token_gives_up_after_three:
  assumes "\<forall>k. transport_failure (snd (net w k (token_request (config c)))) \<noteq> None"
  shows "\<exists>e. transport_failure (snd (net w (length (sent w) + 2) (token_request (config c)))) = Some e
           \<and> refresh_token c w
               = (Inl (AuthError (Failed_to_acquire_token 3 e)), c, snd (snd (refresh_token c w)))
           \<and> sent (snd (snd (refresh_token c w))) = sent w @ replicate 3 (token_request (config c))
           \<and> (\<not> cache_valid c w \<longrightarrow>
                get_valid_token c w = refresh_token c w
                \<and> get_secrets str_of folder_name c w = refresh_error c w e)"
proof -
  let ?rq = "token_request (config c)"
  obtain e1 where f1: "transport_failure (snd (net w (length (sent w)) ?rq)) = Some e1"
    using assms by fastforce
  obtain e2 where f2: "transport_failure (snd (net w (length (sent w) + 1) ?rq)) = Some e2"
    using assms by fastforce
  obtain e3 where f3: "transport_failure (snd (net w (length (sent w) + 2) ?rq)) = Some e3"
    using assms by fastforce
  note r = refresh_token_three_failures [OF f1 f2 f3]
  have eq: "refresh_token c w
              = (Inl (AuthError (Failed_to_acquire_token 3 e3)), c, snd (snd (refresh_token c w)))"
    using r(1) r(2) by (cases "refresh_token c w") simp
  have callers: "get_secrets str_of folder_name c w = refresh_error c w e3"
    if inv: "\<not> cache_valid c w"
  proof -
    have "get_valid_token c w
            = (Inl (AuthError (Failed_to_acquire_token 3 e3)), c, snd (snd (refresh_token c w)))"
      using inv eq by (simp add: get_valid_token_unfold)
    then show ?thesis
      by (simp add: get_secrets_token_failure refresh_error_def)
  qed
  show ?thesis
    using f3 eq r(3) callers by (auto simp: get_valid_token_unfold)
qed

theorem refresh_token_gives_up_after_three_witness:
  "(\<forall>k. transport_failure
          (snd (net (world_with down_net) k (token_request (config (new_client example_config)))))
        \<noteq> None)
   \<and> fst (refresh_token (new_client example_config) (world_with down_net))
       = Inl (AuthError (Failed_to_acquire_token 3 (RequestException ''connection refused'')))
   \<and> sent (snd (snd (refresh_token (new_client example_config) (world_with down_net))))
       = replicate 3 (token_request example_config)"
proof -
  have h: "\<forall>k. transport_failure
             (snd (net (world_with down_net) k (token_request (config (new_client example_config)))))
           \<noteq> None"
    by (simp add: world_with_def down_net_def transport_failure_def)
  from refresh_token_gives_up_after_three [OF h, where str_of = "\<lambda>v. []" and folder_name = "[]"]
  obtain e where
    e: "transport_failure
          (snd (net (world_with down_net) (length (sent (world_with down_net)) + 2)
                 (token_request (config (new_client example_config))))) = Some e"
    and r: "refresh_token (new_client example_config) (world_with down_net)
              = (Inl (AuthError (Failed_to_acquire_token 3 e)), new_client example_config,
                 snd (snd (refresh_token (new_client example_config) (world_with down_net))))"
    and s: "sent (snd (snd (refresh_token (new_client example_config) (world_with down_net))))
              = sent (world_with down_net)
                @ replicate 3 (token_request (config (new_client example_config)))"
    by blast
  have "e = RequestException ''connection refused''"
    using e by (simp add: world_with_def down_net_def transport_failure_def)
  moreover have "fst (refresh_token (new_client example_config) (world_with down_net))
                   = Inl (AuthError (Failed_to_acquire_token 3 e))"
    using r by (metis fst_conv)
  ultimately show ?thesis
    using h s by (simp add: world_with_def new_client_def)
qed

text \<open>
  C4. A refresh that returns a token ended with a response whose body is an object
  carrying that token; with \<open>E\<close> the seconds that object gives as \<^verbatim>\<open>expires_in\<close>
  (3600 when it has no such key) and \<open>T\<close> the clock when the refresh completes, the
  stored expiry is \<open>T + E - 30\<close> seconds, to the microsecond.
\<close>

theorem refresh_token_expiry:
  assumes "refresh_token c w = (Inr tok, c', w')"
  shows "\<exists>resp kvs E.
           snd (net w (length (sent w') - 1) (token_request (config c))) = Responds resp
         \<and> body resp = Inr (JObj kvs)
         \<and> map_of kvs ''access_token'' = Some tok
         \<and> expires_in_seconds kvs = Some E
         \<and> (map_of kvs ''expires_in'' = None \<longrightarrow> E = 3600)
         \<and> access_token c' = tok
         \<and> token_expiry c' = Some (now w' + (E - 30) * 1000000)"
proof -
  from refresh_token_success [OF assms] obtain c0 w0 where
    t: "try_refresh c0 w0 = (Inr tok, c', w')" and cfg: "config c0 = config c"
    and nt: "net w0 = net w" and len: "length (sent w') - 1 = length (sent w0)"
    by blast
  from try_refresh_success [OF t] obtain resp kvs E where
    r: "snd (net w0 (length (sent w0)) (token_request (config c0))) = Responds resp"
    and b: "body resp = Inr (JObj kvs)" and a: "map_of kvs ''access_token'' = Some tok"
    and e: "expires_in_seconds kvs = Some E" and s: "access_token c' = tok"
    and x: "token_expiry c' = Some (now w' + (E - 30) * 1000000)"
    by blast
  have d: "map_of kvs ''expires_in'' = None \<longrightarrow> E = 3600"
    using e by (auto simp: expires_in_seconds_def)
  have r': "snd (net w (length (sent w') - 1) (token_request (config c))) = Responds resp"
    using r cfg nt len by simp
  show ?thesis
    by (rule exI [of _ resp], rule exI [of _ kvs], rule exI [of _ E]) (use r' b a e d s x in simp)
qed

theorem refresh_token_expiry_witness:
  "refresh_token (new_client example_config) (world_with no_expiry_net)
     = (Inr (JStr ''t''),
        \<lparr>config = example_config, access_token = JStr ''t'',
         token_expiry = Some (example_now + 250000 + 3570 * 1000000)\<rparr>,
        \<lparr>now = example_now + 250000, sent = [token_request example_config], slept = [],
         net = no_expiry_net\<rparr>)
   \<and> (\<exists>resp kvs E.
         no_expiry_net 0 (token_request example_config) = (250000, Responds resp)
       \<and> body resp = Inr (JObj kvs) \<and> expires_in_seconds kvs = Some E \<and> E = 3600)"
proof -
  have run: "refresh_token (new_client example_config) (world_with no_expiry_net)
     = (Inr (JStr ''t''),
        \<lparr>config = example_config, access_token = JStr ''t'',
         token_expiry = Some (example_now + 250000 + 3570 * 1000000)\<rparr>,
        \<lparr>now = example_now + 250000, sent = [token_request example_config], slept = [],
         net = no_expiry_net\<rparr>)"
    by (simp add: new_client_def refresh_token_unfold try_refresh_def http_def world_with_def
          no_expiry_net_def json_response_def raise_for_status_def expiry_from_def
          timedelta_seconds_def datetime_add_def datetime_max_def example_now_def)
  from refresh_token_expiry [OF run] obtain resp kvs E where
    r: "snd (net (world_with no_expiry_net) 0 (token_request (config (new_client example_config))))
          = Responds resp"
    and b: "body resp = Inr (JObj kvs)" and e: "expires_in_seconds kvs = Some E"
    and d: "map_of kvs ''expires_in'' = None \<longrightarrow> E = 3600"
    by auto
  have r': "no_expiry_net 0 (token_request example_config) = (250000, Responds resp)"
    using r by (simp add: world_with_def new_client_def no_expiry_net_def)
  then have "kvs = [(''access_token'', JStr ''t'')]"
    using b by (auto simp: no_expiry_net_def json_response_def)
  with d have "E = 3600" by simp
  with run r' b e show ?thesis by blast
qed

text \<open>
  C5, as the code has it. In every run of \<^verbatim>\<open>_refresh_token\<close> the delays slept are
  \<open>backoff * 1\<close>, \<open>backoff * 2\<close>, ... one after each failed attempt that another attempt
  follows, so at most the two delays 2 and 4 between at most three requests. When the
  transport fails the first two requests and the third attempt succeeds, the call
  returns that attempt's token after exactly the delays 2 and 4.
\<close>

theorem refresh_token_backoff:
  "(\<exists>k<3. slept (snd (snd (refresh_token c w)))
             = slept w @ map (\<lambda>i. backoff * (i + 1)) [0..<k]
         \<and> sent (snd (snd (refresh_token c w)))
             = sent w @ replicate (k + 1) (token_request (config c)))
   \<and> (transport_failure (snd (net w (length (sent w)) (token_request (config c)))) \<noteq> None
      \<and> transport_failure (snd (net w (length (sent w) + 1) (token_request (config c)))) \<noteq> None
      \<and> fst (try_refresh c (after_failed_attempt 1 c (after_failed_attempt 0 c w))) = Inr tok
      \<longrightarrow> fst (refresh_token c w) = Inr tok
          \<and> slept (snd (snd (refresh_token c w))) = slept w @ [2, 4]
          \<and> sent (snd (snd (refresh_token c w))) = sent w @ replicate 3 (token_request (config c)))"
proof (intro conjI impI)
  show "\<exists>k<3. slept (snd (snd (refresh_token c w)))
                 = slept w @ map (\<lambda>i. backoff * (i + 1)) [0..<k]
             \<and> sent (snd (snd (refresh_token c w)))
                 = sent w @ replicate (k + 1) (token_request (config c))"
    by (rule refresh_token_log)
next
  let ?rq = "token_request (config c)"
  let ?w1 = "snd (http ?rq w)"
  let ?w2 = "snd (http ?rq (sleep 2 ?w1))"
  assume h: "transport_failure (snd (net w (length (sent w)) ?rq)) \<noteq> None
      \<and> transport_failure (snd (net w (length (sent w) + 1) ?rq)) \<noteq> None
      \<and> fst (try_refresh c (after_failed_attempt 1 c (after_failed_attempt 0 c w))) = Inr tok"
  then obtain e1 e2 where
    f1: "transport_failure (snd (net w (length (sent w)) ?rq)) = Some e1"
    and f2: "transport_failure (snd (net w (length (sent w) + 1) ?rq)) = Some e2"
    by auto
  have t1: "try_refresh c w = (Inl e1, c, ?w1)"
    using f1 by (rule try_refresh_transport_failure)
  have t2: "try_refresh c (sleep 2 ?w1) = (Inl e2, c, ?w2)"
    by (rule try_refresh_transport_failure) (use f2 in \<open>simp add: sleep_fields http_fields\<close>)
  have w3: "after_failed_attempt 1 c (after_failed_attempt 0 c w) = sleep 4 ?w2"
    by (simp add: after_failed_attempt_def backoff_def)
  obtain c3 w3 where t3: "try_refresh c (sleep 4 ?w2) = (Inr tok, c3, w3)"
    using h w3 by (cases "try_refresh c (sleep 4 ?w2)") simp
  have r: "refresh_token c w = (Inr tok, c3, w3)"
    by (simp add: refresh_token_unfold t1 t2 t3)
  show "fst (refresh_token c w) = Inr tok" by (simp add: r)
  show "slept (snd (snd (refresh_token c w))) = slept w @ [2, 4]"
    by (simp add: r try_refresh_keeps(4) [OF t3] sleep_fields http_fields)
  show "sent (snd (snd (refresh_token c w))) = sent w @ replicate 3 (token_request (config c))"
    by (simp add: r try_refresh_keeps(3) [OF t3] sleep_fields http_fields numeral_3_eq_3)
qed

theorem refresh_token_backoff_witness:
  "transport_failure (snd (flaky_net 0 (token_request example_config))) \<noteq> None
   \<and> transport_failure (snd (flaky_net 1 (token_request example_config))) \<noteq> None
   \<and> fst (refresh_token (new_client example_config) (world_with flaky_net)) = Inr (JStr ''t'')
   \<and> slept (snd (snd (refresh_token (new_client example_config) (world_with flaky_net)))) = [2, 4]"
proof -
  have f: "transport_failure (snd (flaky_net 0 (token_request example_config))) \<noteq> None"
    "transport_failure (snd (flaky_net 1 (token_request example_config))) \<noteq> None"
    by (simp_all add: flaky_net_def transport_failure_def)
  have t: "fst (try_refresh (new_client example_config)
                 (after_failed_attempt 1 (new_client example_config)
                   (after_failed_attempt 0 (new_client example_config) (world_with flaky_net))))
             = Inr (JStr ''t'')"
    by (simp add: after_failed_attempt_def backoff_def sleep_def new_client_def try_refresh_def
          http_def world_with_def flaky_net_def token_reply_def json_response_def
          raise_for_status_def expiry_from_def timedelta_seconds_def datetime_add_def
          datetime_max_def example_now_def)
  show ?thesis
    using f t refresh_token_backoff [of "new_client example_config" "world_with flaky_net" "JStr ''t''"]
    by (simp add: world_with_def new_client_def)
qed

text \<open>
  C5 as the specification states it fails: its delays 2, 4 and 6 are not those of the
  code. Against a token
  endpoint that cannot be reached, the three attempts are separated by the delays 2 and
  4, and the third failure raises at once; no delay of 6 is slept.
\<close>

theorem refresh_token_never_sleeps_six:
  "slept (snd (snd (refresh_token (new_client example_config) (world_with down_net)))) = [2, 4]
   \<and> 6 \<notin> set (slept (snd (snd (refresh_token (new_client example_config) (world_with down_net)))))
   \<and> is_AuthError (projl (fst (refresh_token (new_client example_config) (world_with down_net))))"
  by (simp add: new_client_def refresh_token_unfold try_refresh_def http_def sleep_def
        world_with_def down_net_def)

text \<open>
  C6 at a failing input. A token endpoint that answers 200 with
  \<^verbatim>\<open>{"access_token": "new", "expires_in": "3600"}\<close> fails every attempt with the
  \<^verbatim>\<open>TypeError\<close> of \<^verbatim>\<open>"3600" - 30\<close>, so \<^verbatim>\<open>_refresh_token\<close> raises \<^verbatim>\<open>AuthError\<close>; but each
  attempt has already stored the new token. The cache that held no token and no expiry
  holds the new token and still no expiry, and the cache that held the old token holds
  the new one with the old token's expiry, which \<^verbatim>\<open>get_valid_token\<close> then serves.
\<close>

theorem refresh_token_failure_overwrites_token:
  "fst (refresh_token (new_client example_config) (world_with string_expiry_net))
     = Inl (AuthError (Failed_to_acquire_token 3 TypeError))
   \<and> fst (snd (refresh_token (new_client example_config) (world_with string_expiry_net)))
     = \<lparr>config = example_config, access_token = JStr ''new'', token_expiry = None\<rparr>
   \<and> fst (refresh_token cached_client (world_with string_expiry_net))
     = Inl (AuthError (Failed_to_acquire_token 3 TypeError))
   \<and> fst (snd (refresh_token cached_client (world_with string_expiry_net)))
     = cached_client\<lparr>access_token := JStr ''new''\<rparr>"
  by (simp add: new_client_def cached_client_def refresh_token_unfold try_refresh_def http_def
        sleep_def world_with_def string_expiry_net_def token_reply_def json_response_def
        raise_for_status_def expiry_from_def)

text \<open>The cache such a failure leaves is served: the new token passes the check
  of \<^verbatim>\<open>get_valid_token\<close> on the old token's expiry.\<close>

lemma overwritten_token_is_served:
  "get_valid_token (cached_client\<lparr>access_token := JStr ''new''\<rparr>) (world_with down_net)
     = (Inr (JStr ''new''), cached_client\<lparr>access_token := JStr ''new''\<rparr>, world_with down_net)"
  by (simp add: cached_client_def world_with_def get_valid_token_unfold cache_valid_def)

section \<open>Signing in\<close>

lemma get_auth_headers_status_error:
  assumes tok: "get_valid_token c w = (Inr token, c1, w1)"
    and resp: "snd (net w1 (length (sent w1)) (sign_in_request (config c1) (str_of token)))
                 = Responds resp"
    and st: "400 \<le> status_code resp \<and> status_code resp < 600"
  shows "get_auth_headers str_of c w
           = (Inl (HTTPError (status_code resp)), c1,
              snd (http (sign_in_request (config c1) (str_of token)) w1))"
proof (cases "net w1 (length (sent w1)) (sign_in_request (config c1) (str_of token))")
  case (Pair d out)
  with resp have "out = Responds resp" by simp
  with Pair tok st show ?thesis
    by (simp add: get_auth_headers_def http_def raise_for_status_def)
qed

lemma get_secrets_headers_failure:
  assumes "get_auth_headers str_of c w = (Inl e, c1, w1)"
  shows "get_secrets str_of folder_name c w
           = (if is_RequestException e then Inl (BeyondTrustError e) else Inl e, c1, w1)"
  using assms by (simp add: get_secrets_def get_secrets_try_def resolve_folder_def)

text \<open>
  C7 at its failing inputs. The class \<^verbatim>\<open>AuthError\<close> is documented as "Raised when OAuth
  or Session login fails", and the two other login failures (token attempts exhausted,
  session cookie missing) raise it. A sign-in POST answered with a 4xx or 5xx status
  does not: when the token is there, \<^verbatim>\<open>_get_auth_headers\<close> lets the \<^verbatim>\<open>HTTPError\<close> of
  \<^verbatim>\<open>raise_for_status\<close> through as it is, and \<^verbatim>\<open>get_secrets\<close> raises the generic
  \<^verbatim>\<open>BeyondTrustError\<close> made from it, having sent nothing after the sign-in. Neither is
  an \<^verbatim>\<open>AuthError\<close>.
\<close>

theorem sign_in_status_error_is_wrapped_generic:
  assumes "get_valid_token c w = (Inr token, c1, w1)"
    and "snd (net w1 (length (sent w1)) (sign_in_request (config c1) (str_of token)))
           = Responds resp"
    and "400 \<le> status_code resp \<and> status_code resp < 600"
  shows "get_auth_headers str_of c w
           = (Inl (HTTPError (status_code resp)), c1,
              snd (http (sign_in_request (config c1) (str_of token)) w1))
       \<and> get_secrets str_of folder_name c w
           = (Inl (BeyondTrustError (HTTPError (status_code resp))), c1,
              snd (http (sign_in_request (config c1) (str_of token)) w1))
       \<and> \<not> is_AuthError (HTTPError (status_code resp))
       \<and> \<not> is_AuthError (BeyondTrustError (HTTPError (status_code resp)))
       \<and> is_BeyondTrustError (BeyondTrustError (HTTPError (status_code resp)))"
proof -
  note h = get_auth_headers_status_error [where str_of = str_of, OF assms]
  show ?thesis
    using h get_secrets_headers_failure [OF h, of folder_name] by simp
qed

theorem sign_in_status_error_is_wrapped_generic_witness:
  "get_valid_token (new_client example_config) (world_with signin_401_net)
     = (Inr (JStr ''t''), signed_in_client,
        \<lparr>now = example_now, sent = [token_request example_config], slept = [],
         net = signin_401_net\<rparr>)
   \<and> fst (get_auth_headers str_of_scalar (new_client example_config) (world_with signin_401_net))
       = Inl (HTTPError 401)
   \<and> fst (get_secrets str_of_scalar ''Finance'' (new_client example_config)
           (world_with signin_401_net))
       = Inl (BeyondTrustError (HTTPError 401))"
proof -
  let ?resp = "\<lparr>status_code = 401, body = Inl (ValueError ''no JSON''), cookies = []\<rparr>"
  let ?w1 = "\<lparr>now = example_now, sent = [token_request example_config], slept = [],
              net = signin_401_net\<rparr>"
  have t: "get_valid_token (new_client example_config) (world_with signin_401_net)
             = (Inr (JStr ''t''), signed_in_client, ?w1)"
    by (simp add: get_valid_token_unfold cache_valid_def new_client_def refresh_token_unfold
          try_refresh_def http_def world_with_def signin_401_net_def token_reply_def
          json_response_def raise_for_status_def expiry_from_def timedelta_seconds_def
          datetime_add_def datetime_max_def example_now_def signed_in_client_def)
  have r: "snd (net ?w1 (length (sent ?w1))
                 (sign_in_request (config signed_in_client) (str_of_scalar (JStr ''t''))))
             = Responds ?resp"
    by (simp add: signin_401_net_def)
  have s: "400 \<le> status_code ?resp \<and> status_code ?resp < 600" by simp
  show ?thesis
    using t sign_in_status_error_is_wrapped_generic
              [where str_of = str_of_scalar and folder_name = "''Finance''", OF t r s]
    by simp
qed

text \<open>
  The same run from a fresh client, computed: against a vault that refuses the sign-in
  with 401, what \<^verbatim>\<open>_get_auth_headers\<close> raises is the transport's \<^verbatim>\<open>HTTPError\<close> and
  what \<^verbatim>\<open>get_secrets\<close> raises is a plain \<^verbatim>\<open>BeyondTrustError\<close>; neither is an
  \<^verbatim>\<open>AuthError\<close>.
\<close>

lemma sign_in_401_is_no_AuthError:
  "fst (get_auth_headers str_of_scalar (new_client example_config) (world_with signin_401_net))
     = Inl (HTTPError 401)
   \<and> \<not> is_AuthError (projl (fst (get_auth_headers str_of_scalar (new_client example_config)
                                    (world_with signin_401_net))))
   \<and> fst (get_secrets str_of_scalar ''Finance'' (new_client example_config)
           (world_with signin_401_net))
     = Inl (BeyondTrustError (HTTPError 401))
   \<and> \<not> is_AuthError (projl (fst (get_secrets str_of_scalar ''Finance''
                                    (new_client example_config) (world_with signin_401_net))))"
  by (simp add: get_secrets_def get_secrets_try_def resolve_folder_def get_auth_headers_def
        get_valid_token_unfold cache_valid_def new_client_def refresh_token_unfold
        try_refresh_def http_def world_with_def signin_401_net_def token_reply_def
        json_response_def raise_for_status_def expiry_from_def timedelta_seconds_def
        datetime_add_def datetime_max_def example_now_def)

section \<open>Looking the folder up\<close>

lemma first_folder_objects:
  "first_folder folder_name (map JObj entries)
     = Inr (case find (named folder_name) entries of None \<Rightarrow> JNull | Some kvs \<Rightarrow> JObj kvs)"
  by (induction entries) (auto simp: named_def split: option.splits)

lemma find_named_truthy:
  assumes "find (named folder_name) entries = Some kvs"
  shows "truthy (JObj kvs)"
proof -
  from assms have "named folder_name kvs" by (auto simp: find_Some_iff)
  then show ?thesis by (auto simp: named_def)
qed

lemma resolve_folder_objects:
  assumes hs: "get_auth_headers str_of c w = (Inr hs, c1, w1)"
    and get: "http (folders_request (config c1) hs) w1 = (Responds resp, w2)"
    and ok: "raise_for_status resp = None"
    and listing: "body resp = Inr (JArr (map JObj entries))"
  shows "resolve_folder str_of folder_name c w
           = (case find (named folder_name) entries of
                None \<Rightarrow> (Inl (ResourceNotFoundError folder_name), c1, w2)
              | Some kvs \<Rightarrow> (Inr (hs, JObj kvs), c1, w2))"
proof (cases "find (named folder_name) entries")
  case None
  with assms show ?thesis
    by (simp add: resolve_folder_def first_folder_objects)
next
  case (Some kvs)
  with assms find_named_truthy [OF Some] show ?thesis
    by (simp add: resolve_folder_def first_folder_objects)
qed

text \<open>
  C8. With the headers obtained and the folder listing a list of objects, step 1 of
  \<^verbatim>\<open>get_secrets\<close> settles on the first object whose \<^verbatim>\<open>Name\<close> is exactly the string asked
  for. When there is none, \<^verbatim>\<open>get_secrets\<close> raises \<^verbatim>\<open>ResourceNotFoundError\<close> for that
  name, and the last request it has sent is the folder listing.
\<close>

theorem get_secrets_first_match_or_not_found:
  assumes "get_auth_headers str_of c w = (Inr hs, c1, w1)"
    and "http (folders_request (config c1) hs) w1 = (Responds resp, w2)"
    and "raise_for_status resp = None"
    and "body resp = Inr (JArr (map JObj entries))"
  shows "resolve_folder str_of folder_name c w
           = (case find (named folder_name) entries of
                None \<Rightarrow> (Inl (ResourceNotFoundError folder_name), c1, w2)
              | Some kvs \<Rightarrow> (Inr (hs, JObj kvs), c1, w2))
       \<and> (find (named folder_name) entries = None \<longrightarrow>
            get_secrets str_of folder_name c w = (Inl (ResourceNotFoundError folder_name), c1, w2)
            \<and> sent w2 = sent w1 @ [folders_request (config c1) hs])"
proof -
  note r = resolve_folder_objects [where folder_name = folder_name, OF assms]
  have s: "sent w2 = sent w1 @ [folders_request (config c1) hs]"
    using assms(2) http_fields(1) [of "folders_request (config c1) hs" w1] by simp
  show ?thesis
    using r s by (auto simp: get_secrets_def get_secrets_try_def)
qed

lemma vault_sign_in:
  "get_auth_headers str_of_scalar (new_client example_config) (world_with (vault_net secrets))
     = (Inr signed_in_headers, signed_in_client, signed_in_world secrets)"
  by (simp add: get_auth_headers_def get_valid_token_unfold cache_valid_def new_client_def
        refresh_token_unfold try_refresh_def http_def world_with_def vault_net_def
        token_reply_def session_reply_def json_response_def raise_for_status_def
        expiry_from_def timedelta_seconds_def datetime_add_def datetime_max_def
        example_now_def signed_in_client_def signed_in_world_def signed_in_headers_def)

lemma vault_folders:
  "http (folders_request (config signed_in_client) signed_in_headers) (signed_in_world secrets)
     = (Responds (json_response (JArr (map JObj finance_folders))), listed_world secrets)"
  by (simp add: http_def signed_in_world_def listed_world_def vault_net_def
        signed_in_client_def)

theorem get_secrets_first_match_or_not_found_witness:
  "get_secrets str_of_scalar ''Missing'' (new_client example_config)
       (world_with (vault_net finance_secrets))
     = (Inl (ResourceNotFoundError ''Missing''), signed_in_client, listed_world finance_secrets)
   \<and> sent (listed_world finance_secrets)
     = [token_request example_config, sign_in_request example_config ''t'',
        folders_request example_config signed_in_headers]
   \<and> resolve_folder str_of_scalar ''Finance'' (new_client example_config)
       (world_with (vault_net finance_secrets))
     = (Inr (signed_in_headers, JObj [(''Name'', JStr ''Finance''), (''Id'', JInt 42)]),
        signed_in_client, listed_world finance_secrets)"
proof -
  have ok: "raise_for_status (json_response (JArr (map JObj finance_folders))) = None"
    by (simp add: raise_for_status_def json_response_def)
  have listing: "body (json_response (JArr (map JObj finance_folders)))
                   = Inr (JArr (map JObj finance_folders))"
    by (simp add: json_response_def)
  have missing: "find (named ''Missing'') finance_folders = None"
    by (simp add: finance_folders_def named_def)
  have finance: "find (named ''Finance'') finance_folders
                   = Some [(''Name'', JStr ''Finance''), (''Id'', JInt 42)]"
    by (simp add: finance_folders_def named_def)
  show ?thesis
    using get_secrets_first_match_or_not_found
            [where folder_name = "''Missing''", OF vault_sign_in vault_folders ok listing]
          get_secrets_first_match_or_not_found
            [where folder_name = "''Finance''", OF vault_sign_in vault_folders ok listing]
    by (simp add: missing finance listed_world_def)
qed

section \<open>Fetching the secrets\<close>

lemma secrets_dict_entries:
  assumes "\<forall>item\<in>set items. secret_entry item \<noteq> None"
  shows "secrets_dict items m = Inr (m ++ map_of (rev (List.map_filter secret_entry items)))"
  using assms
proof (induction items arbitrary: m)
  case Nil
  then show ?case by (simp add: List.map_filter_simps)
next
  case (Cons item items)
  then obtain k v where e: "secret_entry item = Some (k, v)" by auto
  then obtain kvs title where item: "item = JObj kvs" and t: "map_of kvs ''Title'' = Some title"
    and k: "hash_key title = Inr k"
    and v: "v = (case map_of kvs ''Password'' of None \<Rightarrow> JStr [] | Some p \<Rightarrow> p)"
    by (cases item) (auto split: option.splits sum.splits)
  have step: "secrets_dict (item # items) m = secrets_dict items (m(k \<mapsto> v))"
    using item t k v by (simp split: option.splits)
  have "secrets_dict items (m(k \<mapsto> v))
          = Inr (m(k \<mapsto> v) ++ map_of (rev (List.map_filter secret_entry items)))"
    using Cons by simp
  moreover have "m(k \<mapsto> v) ++ map_of (rev (List.map_filter secret_entry items))
                   = m ++ map_of (rev (List.map_filter secret_entry (item # items)))"
    by (simp add: List.map_filter_simps e map_add_assoc [symmetric] map_add_upd_left
          flip: map_add_assoc) (simp add: map_add_def fun_eq_iff split: option.splits)
  ultimately show ?case using step by simp
qed

lemma secrets_dict_untitled:
  assumes "\<forall>item\<in>set items. secret_entry item \<noteq> None \<or> lacks_title item"
    and "\<exists>item\<in>set items. lacks_title item"
  shows "secrets_dict items m = Inl (KeyError ''Title'')"
  using assms
proof (induction items arbitrary: m)
  case Nil
  then show ?case by simp
next
  case (Cons item items)
  show ?case
  proof (cases "lacks_title item")
    case True
    then show ?thesis by (cases item) simp_all
  next
    case False
    with Cons.prems obtain k v where e: "secret_entry item = Some (k, v)" by auto
    then obtain kvs title where item: "item = JObj kvs" and t: "map_of kvs ''Title'' = Some title"
      and k: "hash_key title = Inr k"
      by (cases item) (auto split: option.splits sum.splits)
    have step: "secrets_dict (item # items) m
                  = secrets_dict items
                      (m(k \<mapsto> (case map_of kvs ''Password'' of None \<Rightarrow> JStr [] | Some p \<Rightarrow> p)))"
      using item t k by (simp split: option.splits)
    from Cons.prems False have "\<forall>i\<in>set items. secret_entry i \<noteq> None \<or> lacks_title i"
      and "\<exists>i\<in>set items. lacks_title i" by auto
    then show ?thesis using Cons.IH step by simp
  qed
qed

lemma get_secrets_listing:
  assumes folder: "resolve_folder str_of folder_name c w = (Inr (hs, folder), c1, w1)"
    and f_id: "folder_id folder = Inr f_id"
    and get: "http (secrets_request (config c1) (str_of f_id) hs) w1 = (Responds resp, w2)"
    and ok: "raise_for_status resp = None"
    and listing: "body resp = Inr (JArr items)"
  shows "get_secrets str_of folder_name c w
           = (case secrets_dict items Map.empty of
                Inl e \<Rightarrow> (if is_RequestException e then Inl (BeyondTrustError e) else Inl e, c1, w2)
              | Inr m \<Rightarrow> (Inr m, c1, w2))"
  using assms
  by (simp add: get_secrets_def get_secrets_try_def fetch_secrets_def split: sum.splits)

lemma vault_resolve:
  "resolve_folder str_of_scalar ''Finance'' (new_client example_config)
       (world_with (vault_net secrets))
     = (Inr (signed_in_headers, JObj [(''Name'', JStr ''Finance''), (''Id'', JInt 42)]),
        signed_in_client, listed_world secrets)"
proof -
  have ok: "raise_for_status (json_response (JArr (map JObj finance_folders))) = None"
    by (simp add: raise_for_status_def json_response_def)
  have listing: "body (json_response (JArr (map JObj finance_folders)))
                   = Inr (JArr (map JObj finance_folders))"
    by (simp add: json_response_def)
  have finance: "find (named ''Finance'') finance_folders
                   = Some [(''Name'', JStr ''Finance''), (''Id'', JInt 42)]"
    by (simp add: finance_folders_def named_def)
  show ?thesis
    using resolve_folder_objects
            [where folder_name = "''Finance''", OF vault_sign_in vault_folders ok listing]
    by (simp add: finance)
qed

lemma str_of_42: "str_of_scalar (JInt 42) = ''42''"
  by code_simp

lemma vault_folder_id:
  "folder_id (JObj [(''Name'', JStr ''Finance''), (''Id'', JInt 42)]) = Inr (JInt 42)"
  by (simp add: folder_id_def)

lemma vault_secrets:
  "http (secrets_request (config signed_in_client) (str_of_scalar (JInt 42)) signed_in_headers)
       (listed_world secrets)
     = (Responds (json_response (JArr secrets)), fetched_world secrets)"
  by (simp only: str_of_42)
     (simp add: http_def listed_world_def fetched_world_def vault_net_def signed_in_client_def)

lemma json_response_ok:
  "raise_for_status (json_response v) = None" "body (json_response v) = Inr v"
  by (simp_all add: raise_for_status_def json_response_def)

text \<open>
  C9. With the folder resolved and the secrets listing a list of objects that each have
  a hashable title, \<^verbatim>\<open>get_secrets\<close> returns the dict that maps each title to the
  password of the last item carrying it, the password of an item without a
  \<^verbatim>\<open>Password\<close> field being the empty string.
\<close>

theorem get_secrets_mapping:
  assumes "resolve_folder str_of folder_name c w = (Inr (hs, folder), c1, w1)"
    and "folder_id folder = Inr f_id"
    and "http (secrets_request (config c1) (str_of f_id) hs) w1 = (Responds resp, w2)"
    and "raise_for_status resp = None"
    and "body resp = Inr (JArr items)"
    and "\<forall>item\<in>set items. secret_entry item \<noteq> None"
  shows "get_secrets str_of folder_name c w
           = (Inr (map_of (rev (List.map_filter secret_entry items))), c1, w2)"
  using get_secrets_listing [OF assms(1-5)] secrets_dict_entries [OF assms(6), of Map.empty]
  by simp

theorem get_secrets_mapping_witness:
  "get_secrets str_of_scalar ''Finance'' (new_client example_config)
       (world_with (vault_net finance_secrets))
     = (Inr [JStr ''db'' \<mapsto> JStr ''p1'', JStr ''api'' \<mapsto> JStr []],
        signed_in_client, fetched_world finance_secrets)
   \<and> get_secrets str_of_scalar ''Finance'' (new_client example_config)
       (world_with (vault_net repeated_secrets))
     = (Inr [JStr ''db'' \<mapsto> JStr []], signed_in_client, fetched_world repeated_secrets)"
proof -
  have a: "\<forall>item\<in>set finance_secrets. secret_entry item \<noteq> None"
    by (simp add: finance_secrets_def)
  have b: "\<forall>item\<in>set repeated_secrets. secret_entry item \<noteq> None"
    by (simp add: repeated_secrets_def)
  have ma: "map_of (rev (List.map_filter secret_entry finance_secrets))
              = [JStr ''db'' \<mapsto> JStr ''p1'', JStr ''api'' \<mapsto> JStr []]"
    by (simp add: finance_secrets_def List.map_filter_simps)
  have mb: "map_of (rev (List.map_filter secret_entry repeated_secrets))
              = [JStr ''db'' \<mapsto> JStr []]"
    by (simp add: repeated_secrets_def List.map_filter_simps)
  show ?thesis
    using
      get_secrets_mapping [OF vault_resolve vault_folder_id vault_secrets json_response_ok a]
      get_secrets_mapping [OF vault_resolve vault_folder_id vault_secrets json_response_ok b]
    by (simp only: ma mb simp_thms)
qed

text \<open>
  C10. With the folder resolved and the secrets listing a list whose items are
  well-formed secrets or objects without a \<^verbatim>\<open>Title\<close> field, at least one of the latter,
  \<^verbatim>\<open>get_secrets\<close> raises the \<^verbatim>\<open>KeyError\<close> of the title lookup as it is; it is no
  \<^verbatim>\<open>BeyondTrustError\<close>.
\<close>

theorem get_secrets_untitled_item_raises_KeyError:
  assumes "resolve_folder str_of folder_name c w = (Inr (hs, folder), c1, w1)"
    and "folder_id folder = Inr f_id"
    and "http (secrets_request (config c1) (str_of f_id) hs) w1 = (Responds resp, w2)"
    and "raise_for_status resp = None"
    and "body resp = Inr (JArr items)"
    and "\<forall>item\<in>set items. secret_entry item \<noteq> None \<or> lacks_title item"
    and "\<exists>item\<in>set items. lacks_title item"
  shows "get_secrets str_of folder_name c w = (Inl (KeyError ''Title''), c1, w2)
       \<and> \<not> is_BeyondTrustError (KeyError ''Title'')
       \<and> \<not> is_RequestException (KeyError ''Title'')"
  using get_secrets_listing [OF assms(1-5)]
    secrets_dict_untitled [OF assms(6) assms(7), of Map.empty]
  by simp

theorem get_secrets_untitled_item_raises_KeyError_witness:
  "get_secrets str_of_scalar ''Finance'' (new_client example_config)
       (world_with (vault_net untitled_secrets))
     = (Inl (KeyError ''Title''), signed_in_client, fetched_world untitled_secrets)
   \<and> \<not> is_BeyondTrustError (KeyError ''Title'')"
proof -
  have a: "\<forall>item\<in>set untitled_secrets. secret_entry item \<noteq> None \<or> lacks_title item"
    by (simp add: untitled_secrets_def)
  have b: "\<exists>item\<in>set untitled_secrets. lacks_title item"
    by (simp add: untitled_secrets_def)
  show ?thesis
    using
      get_secrets_untitled_item_raises_KeyError
        [OF vault_resolve vault_folder_id vault_secrets json_response_ok a b]
    by simp
qed

end
